theory Spec2Isabelle
  imports Complex_Main "HOL-Library.List_Lexorder"
begin

section \<open>Values of the host language\<close>

text \<open>
  A JavaScript string is a sequence of UTF-16 code units. The relational operators on
  strings compare the code units lexicographically, a proper prefix being smaller, which
  is the order of \<^theory_text>\<open>List_Lexorder\<close>. The empty string is the only falsy string.
  Literals of the source are written \<open>js ''...''\<close>.

  Numbers are IEEE doubles in the source. Amounts are modelled as \<^typ>\<open>real\<close>: the
  development is about which fields and which formula a value is computed from, not about
  rounding. No \<open>NaN\<close> exists in this model, so \<open>x || 0\<close> is \<open>x\<close>. Totals are stated as
  the code accumulates them, from 0 and entry by entry in list order; no statement
  regroups or reorders a sum, since doubles do not allow it.
\<close>

type_synonym jsstring = "nat list"

definition js :: "string \<Rightarrow> jsstring" where
  "js s = map of_char s"

definition or_str :: "jsstring \<Rightarrow> jsstring \<Rightarrow> jsstring" where
  \<comment> \<open>\<open>a || b\<close> on strings\<close>
  "or_str a b = (if a \<noteq> [] then a else b)"

definition or_zero :: "real \<Rightarrow> real" where
  \<comment> \<open>\<open>x || 0\<close> on numbers\<close>
  "or_zero x = (if x \<noteq> 0 then x else 0)"

definition reduce :: "('b \<Rightarrow> 'a \<Rightarrow> 'b) \<Rightarrow> 'b \<Rightarrow> 'a list \<Rightarrow> 'b" where
  \<comment> \<open>\<open>xs.reduce(f, init)\<close>: a left fold\<close>
  "reduce f init xs = foldl f init xs"

fun decimal :: "nat \<Rightarrow> jsstring" where
  "decimal n = (if n < 10 then [48 + n] else decimal (n div 10) @ [48 + n mod 10])"

declare decimal.simps [simp del]

section \<open>Entries\<close>

text \<open>
  The entry types are imported from \<open>@/data/dummyData\<close>; the fields are the ones the pages
  read. \<open>riyalAmount\<close> and \<open>balance\<close> are optional (tested with \<open>!== undefined\<close>).
\<close>

record SaudiEntry =
  entry_id :: jsstring
  date :: jsstring
  time :: jsstring
  refNo :: jsstring
  pkrAmount :: real
  riyalRate :: real
  riyalAmount :: "real option"
  submittedSar :: real
  reference2 :: jsstring
  balance :: "real option"

datatype BalanceType = Online | Cash

record SpecialEntry =
  id_sp :: jsstring
  userName :: jsstring
  date_sp :: jsstring
  balanceType :: BalanceType
  nameRupees :: real
  submittedRupees :: real
  referencePerson :: jsstring
  balance_sp :: "real option"

section \<open>Balances\<close>

subsection \<open>Saudi page\<close>

definition column_riyalAmount :: "SaudiEntry \<Rightarrow> real" where
  \<comment> \<open>the \<open>riyalAmount\<close> column of the table\<close>
  "column_riyalAmount row =
     (case riyalAmount row of
        Some r \<Rightarrow> r
      | None \<Rightarrow> (if riyalRate row > 0 then pkrAmount row / riyalRate row else 0))"

definition column_balance :: "SaudiEntry \<Rightarrow> real" where
  \<comment> \<open>the \<open>balance\<close> column of the table: the amount handed to \<open>BalanceDisplay\<close>\<close>
  "column_balance row =
     (case balance row of
        Some b \<Rightarrow> b
      | None \<Rightarrow>
          (let riyalAmount' =
                 (case riyalAmount row of
                    Some r \<Rightarrow> r
                  | None \<Rightarrow> (if riyalRate row > 0 then pkrAmount row / riyalRate row else 0))
           in riyalAmount' - submittedSar row))"

definition pdf_riyalAmount :: "SaudiEntry \<Rightarrow> real" where
  \<comment> \<open>\<open>riyalAmount\<close> in the \<open>tableData\<close> callback of \<open>handleDownloadPDF\<close>\<close>
  "pdf_riyalAmount entry =
     (case riyalAmount entry of
        Some r \<Rightarrow> r
      | None \<Rightarrow> (if riyalRate entry > 0 then pkrAmount entry / riyalRate entry else 0))"

definition pdf_balance :: "SaudiEntry \<Rightarrow> real" where
  \<comment> \<open>\<open>balance\<close> in the \<open>tableData\<close> callback of \<open>handleDownloadPDF\<close>\<close>
  "pdf_balance entry =
     (case balance entry of
        Some b \<Rightarrow> b
      | None \<Rightarrow> pdf_riyalAmount entry - submittedSar entry)"

definition saudi_row ::
  "(real \<Rightarrow> jsstring) \<Rightarrow> (real \<Rightarrow> jsstring) \<Rightarrow> SaudiEntry \<Rightarrow> jsstring list" where
  \<comment> \<open>one body row of the PDF; \<open>formatNumber\<close> (from \<open>@/data/dummyData\<close>) and
      \<open>Number.prototype.toFixed(2)\<close> are parameters\<close>
  "saudi_row formatNumber toFixed2 entry =
     [ date entry,
       or_str (refNo entry) (js ''-''),
       formatNumber (pkrAmount entry) @ js '' PKR'',
       formatNumber (pdf_riyalAmount entry) @ js '' SAR'',
       formatNumber (submittedSar entry) @ js '' SAR'',
       or_str (reference2 entry) (js ''-''),
       formatNumber (pdf_balance entry) @ js '' SAR'',
       toFixed2 (riyalRate entry) ]"

text \<open>The balance rule in the words of the specification.\<close>

definition spec_riyalAmount :: "SaudiEntry \<Rightarrow> real" where
  "spec_riyalAmount e =
     (if riyalAmount e \<noteq> None then the (riyalAmount e)
      else if riyalRate e > 0 then pkrAmount e / riyalRate e
      else 0)"

definition spec_saudi_balance :: "SaudiEntry \<Rightarrow> real" where
  "spec_saudi_balance e =
     (if balance e \<noteq> None then the (balance e)
      else spec_riyalAmount e - submittedSar e)"

subsection \<open>Special page\<close>

definition calculateSpecialBalance :: "real \<Rightarrow> real \<Rightarrow> real" where
  \<comment> \<open>Modelled from the spec: \<open>calculateSpecialBalance\<close> is imported from
      \<open>@/data/dummyData\<close>, which is not among the sources. Section 4.1:
      "Special: balance = nameRupees - submittedRupees".\<close>
  "calculateSpecialBalance nameRupees' submittedRupees' = nameRupees' - submittedRupees'"

definition column_balance_sp :: "SpecialEntry \<Rightarrow> real" where
  \<comment> \<open>the \<open>balance\<close> column of the table\<close>
  "column_balance_sp row =
     (case balance_sp row of
        Some b \<Rightarrow> b
      | None \<Rightarrow> calculateSpecialBalance (nameRupees row) (submittedRupees row))"

definition pdf_balance_sp :: "SpecialEntry \<Rightarrow> real" where
  \<comment> \<open>\<open>balance\<close> in the \<open>tableData\<close> callback of \<open>handleDownloadPDF\<close>\<close>
  "pdf_balance_sp entry =
     (case balance_sp entry of
        Some b \<Rightarrow> b
      | None \<Rightarrow> nameRupees entry - submittedRupees entry)"

definition balanceType_str :: "BalanceType \<Rightarrow> jsstring" where
  "balanceType_str t = (case t of Online \<Rightarrow> js ''Online'' | Cash \<Rightarrow> js ''Cash'')"

definition special_row :: "(real \<Rightarrow> jsstring) \<Rightarrow> SpecialEntry \<Rightarrow> jsstring list" where
  "special_row formatNumber entry =
     [ or_str (userName entry) (js ''-''),
       date_sp entry,
       balanceType_str (balanceType entry),
       formatNumber (nameRupees entry) @ js '' PKR'',
       formatNumber (submittedRupees entry) @ js '' PKR'',
       or_str (referencePerson entry) (js ''-''),
       formatNumber (pdf_balance_sp entry) @ js '' PKR'' ]"

definition spec_special_balance :: "SpecialEntry \<Rightarrow> real" where
  "spec_special_balance e =
     (if balance_sp e \<noteq> None then the (balance_sp e)
      else nameRupees e - submittedRupees e)"

section \<open>Page state and the date filter\<close>

record DateFilter =
  fromDate :: jsstring
  toDate :: jsstring

record 'e PageState =
  entries :: "'e list"
  filteredEntries :: "'e list"
  dateFilter :: DateFilter

definition fetchEntries :: "'e list \<Rightarrow> 'e PageState \<Rightarrow> 'e PageState" where
  \<comment> \<open>a successful fetch of \<open>data\<close>\<close>
  "fetchEntries data st = st\<lparr>entries := data, filteredEntries := data\<rparr>"

definition filter_pred :: "DateFilter \<Rightarrow> jsstring \<Rightarrow> bool" where
  \<comment> \<open>the callback of \<open>entries.filter\<close>, on the entry's date\<close>
  "filter_pred df entryDate =
     (if fromDate df \<noteq> [] \<and> entryDate < fromDate df then False
      else if toDate df \<noteq> [] \<and> entryDate > toDate df then False
      else True)"

definition handleFilter :: "('e \<Rightarrow> jsstring) \<Rightarrow> 'e PageState \<Rightarrow> 'e PageState" where
  \<comment> \<open>the same code on both pages; \<open>date_of\<close> reads \<open>entry.date\<close>\<close>
  "handleFilter date_of st =
     (if fromDate (dateFilter st) = [] \<and> toDate (dateFilter st) = []
      then st\<lparr>filteredEntries := entries st\<rparr>
      else st\<lparr>filteredEntries :=
                filter (\<lambda>entry. filter_pred (dateFilter st) (date_of entry)) (entries st)\<rparr>)"

definition handleClearFilter :: "'e PageState \<Rightarrow> 'e PageState" where
  "handleClearFilter st =
     st\<lparr>dateFilter := \<lparr>fromDate = [], toDate = []\<rparr>, filteredEntries := entries st\<rparr>"

definition in_range :: "DateFilter \<Rightarrow> jsstring \<Rightarrow> bool" where
  \<comment> \<open>the specification's condition: \<open>fromDate <= date <= toDate\<close>, an empty bound
      constraining nothing\<close>
  "in_range df d = ((fromDate df = [] \<or> fromDate df \<le> d) \<and> (toDate df = [] \<or> d \<le> toDate df))"

section \<open>Report export\<close>

text \<open>
  \<open>handleDownloadPDF\<close> talks to the PDF library, the clock and the browser. Its model
  returns the calls it makes, in order. What the platform supplies is a parameter:
  \<open>formatNumber\<close> (imported from \<open>@/data/dummyData\<close>), \<open>toFixed(2)\<close>, the two
  renderings of \<open>new Date()\<close>, the page count of the laid-out document, and whether the
  call of \<open>autoTable\<close> raises (\<open>library_throws\<close>): the header has been written by then,
  and the \<open>catch\<close> of the routine logs the error and raises the failure notice.
\<close>

record Platform =
  formatNumber :: "real \<Rightarrow> jsstring"
  toFixed2 :: "real \<Rightarrow> jsstring"
  toISOString :: jsstring
  toLocaleString :: jsstring
  getNumberOfPages :: nat
  library_throws :: bool

datatype effect =
    Alert jsstring
  | ConsoleError jsstring
  | NewDocument
  | LoadUrduFont
  | Text jsstring
  | AutoTable "jsstring list" "jsstring list list"
  | Save jsstring

definition dataToExport :: "'e PageState \<Rightarrow> 'e list" where
  "dataToExport st = (if length (filteredEntries st) > 0 then filteredEntries st else entries st)"

definition dateRange :: "DateFilter \<Rightarrow> jsstring" where
  "dateRange df =
     (if fromDate df \<noteq> [] \<and> toDate df \<noteq> []
      then fromDate df @ js '' to '' @ toDate df
      else js ''All Entries'')"

definition isoDate :: "Platform \<Rightarrow> jsstring" where
  \<comment> \<open>\<open>new Date().toISOString().split('T')[0]\<close>\<close>
  "isoDate env = takeWhile (\<lambda>c. c \<noteq> of_char CHR ''T'') (toISOString env)"

definition footer :: "Platform \<Rightarrow> effect list" where
  "footer env =
     map (\<lambda>i. Text (js ''Page '' @ decimal i @ js '' of '' @ decimal (getNumberOfPages env)))
       [1 ..< Suc (getNumberOfPages env)]"

subsection \<open>Saudi page\<close>

definition totalPKR :: "SaudiEntry list \<Rightarrow> real" where
  "totalPKR data = reduce (\<lambda>sum entry. sum + or_zero (pkrAmount entry)) 0 data"

definition totalRiyal :: "SaudiEntry list \<Rightarrow> real" where
  "totalRiyal data =
     reduce (\<lambda>sum entry.
        let riyalAmount' =
              (case riyalAmount entry of
                 Some r \<Rightarrow> r
               | None \<Rightarrow> (if riyalRate entry > 0 then pkrAmount entry / riyalRate entry else 0))
        in sum + riyalAmount') 0 data"

definition totalSubmittedSAR :: "SaudiEntry list \<Rightarrow> real" where
  "totalSubmittedSAR data = reduce (\<lambda>sum entry. sum + or_zero (submittedSar entry)) 0 data"

definition saudi_totals_row :: "(real \<Rightarrow> jsstring) \<Rightarrow> SaudiEntry list \<Rightarrow> jsstring list" where
  "saudi_totals_row formatNumber' data =
     [ [],
       js ''TOTALS'',
       formatNumber' (totalPKR data) @ js '' PKR'',
       formatNumber' (totalRiyal data) @ js '' SAR'',
       formatNumber' (totalSubmittedSAR data) @ js '' SAR'',
       [],
       formatNumber' (totalRiyal data - totalSubmittedSAR data) @ js '' SAR'',
       [] ]"

definition saudi_tableData :: "Platform \<Rightarrow> SaudiEntry list \<Rightarrow> jsstring list list" where
  "saudi_tableData env data =
     map (saudi_row (formatNumber env) (toFixed2 env)) data
     @ [saudi_totals_row (formatNumber env) data]"

definition saudi_head :: "jsstring list" where
  "saudi_head = [js ''Date'', js ''Name'', js ''PKR Order'', js ''Riyal Order'',
                 js ''Total Riyal'', js ''Reference'', js ''Balance'', js ''Riyal Rate'']"

definition saudi_fileName :: "Platform \<Rightarrow> DateFilter \<Rightarrow> jsstring" where
  "saudi_fileName env df =
     js ''Saudi_Hisaab_Kitaab_'' @ or_str (fromDate df) (js ''all'') @ js ''_''
     @ or_str (toDate df) (js ''all'') @ js ''_'' @ isoDate env @ js ''.pdf''"

definition handleDownloadPDF :: "Platform \<Rightarrow> SaudiEntry PageState \<Rightarrow> effect list" where
  "handleDownloadPDF env st =
     (let data = dataToExport st in
      if length data = 0 then [Alert (js ''No data to export'')]
      else if library_throws env then
        [NewDocument, LoadUrduFont,
         Text (js ''SAUDI HISAAB KITAAB REPORT''),
         Text (js ''Date Range: '' @ dateRange (dateFilter st)),
         Text (js ''Generated: '' @ toLocaleString env),
         Text (js ''Total Entries: '' @ decimal (length data)),
         ConsoleError (js ''Error generating PDF:''),
         Alert (js ''Failed to generate PDF. Please check the console for details.'')]
      else
        [NewDocument, LoadUrduFont,
         Text (js ''SAUDI HISAAB KITAAB REPORT''),
         Text (js ''Date Range: '' @ dateRange (dateFilter st)),
         Text (js ''Generated: '' @ toLocaleString env),
         Text (js ''Total Entries: '' @ decimal (length data)),
         AutoTable saudi_head (saudi_tableData env data)]
        @ footer env
        @ [Save (saudi_fileName env (dateFilter st))])"

subsection \<open>Special page\<close>

definition totalNameRupees :: "SpecialEntry list \<Rightarrow> real" where
  "totalNameRupees data = reduce (\<lambda>sum entry. sum + or_zero (nameRupees entry)) 0 data"

definition totalSubmittedRupees :: "SpecialEntry list \<Rightarrow> real" where
  "totalSubmittedRupees data =
     reduce (\<lambda>sum entry. sum + or_zero (submittedRupees entry)) 0 data"

definition totalBalance :: "SpecialEntry list \<Rightarrow> real" where
  "totalBalance data =
     reduce (\<lambda>sum entry.
        let balance' =
              (case balance_sp entry of
                 Some b \<Rightarrow> b
               | None \<Rightarrow> nameRupees entry - submittedRupees entry)
        in sum + balance') 0 data"

definition special_totals_row ::
  "(real \<Rightarrow> jsstring) \<Rightarrow> SpecialEntry list \<Rightarrow> jsstring list" where
  "special_totals_row formatNumber' data =
     [ [],
       [],
       js ''TOTALS'',
       formatNumber' (totalNameRupees data) @ js '' PKR'',
       formatNumber' (totalSubmittedRupees data) @ js '' PKR'',
       [],
       formatNumber' (totalBalance data) @ js '' PKR'' ]"

definition special_tableData :: "Platform \<Rightarrow> SpecialEntry list \<Rightarrow> jsstring list list" where
  "special_tableData env data =
     map (special_row (formatNumber env)) data @ [special_totals_row (formatNumber env) data]"

definition special_head :: "jsstring list" where
  \<comment> \<open>the seven Urdu column titles, as code units\<close>
  "special_head =
     [ [1589, 1575, 1585, 1601, 32, 1705, 1575, 32, 1606, 1575, 1605],
       [1578, 1575, 1585, 1740, 1582],
       [1581, 1587, 1575, 1576, 32, 1705, 1740, 32, 1602, 1587, 1605],
       [1585, 1602, 1605, 32, 1576, 1726, 1740, 1580, 1740, 32, 1711, 1574, 1740],
       [1580, 1605, 1593, 32, 1588, 1583, 1729, 32, 1585, 1602, 1605],
       [1581, 1608, 1575, 1604, 1729, 32, 1588, 1582, 1589],
       [1576, 1602, 1740, 1729, 32, 1585, 1602, 1605] ]"

definition special_fileName :: "Platform \<Rightarrow> DateFilter \<Rightarrow> jsstring" where
  "special_fileName env df =
     js ''Special_Hisaab_Kitaab_'' @ or_str (fromDate df) (js ''all'') @ js ''_''
     @ or_str (toDate df) (js ''all'') @ js ''_'' @ isoDate env @ js ''.pdf''"

definition handleDownloadPDF_sp :: "Platform \<Rightarrow> SpecialEntry PageState \<Rightarrow> effect list" where
  "handleDownloadPDF_sp env st =
     (let data = dataToExport st in
      if length data = 0 then [Alert (js ''No data to export'')]
      else if library_throws env then
        [NewDocument,
         Text (js ''SPECIAL HISAAB KITAAB REPORT''),
         Text (js ''Date Range: '' @ dateRange (dateFilter st)),
         Text (js ''Generated: '' @ toLocaleString env),
         Text (js ''Total Entries: '' @ decimal (length data)),
         ConsoleError (js ''Error generating PDF:''),
         Alert (js ''Failed to generate PDF. Please check the console for details.'')]
      else
        [NewDocument,
         Text (js ''SPECIAL HISAAB KITAAB REPORT''),
         Text (js ''Date Range: '' @ dateRange (dateFilter st)),
         Text (js ''Generated: '' @ toLocaleString env),
         Text (js ''Total Entries: '' @ decimal (length data)),
         AutoTable special_head (special_tableData env data)]
        @ footer env
        @ [Save (special_fileName env (dateFilter st))])"

subsection \<open>The file name in the words of the specification\<close>

definition spec_fileName :: "string \<Rightarrow> jsstring \<Rightarrow> jsstring \<Rightarrow> jsstring \<Rightarrow> jsstring" where
  \<comment> \<open>\<open><ReportKind>_Hisaab_Kitaab_<from|all>_<to|all>_<isoDate>.pdf\<close>; an unset bound is
      the empty string\<close>
  "spec_fileName reportKind from to today =
     js reportKind @ js ''_Hisaab_Kitaab_''
     @ (if from = [] then js ''all'' else from) @ js ''_''
     @ (if to = [] then js ''all'' else to) @ js ''_''
     @ today @ js ''.pdf''"

section \<open>Font loader\<close>

text \<open>
  \<open>loadUrduFont\<close> is asynchronous: it suspends at each \<open>await\<close> and resumes when the
  network answers. The model is a transition system. \<open>Call doc\<close> is one invocation of
  \<open>loadUrduFont(doc)\<close>, which runs the body up to its first \<open>await\<close>; \<open>Settle i r\<close>
  resumes the \<open>i\<close>-th started body with the outcome \<open>r\<close> of the operation it awaits and
  runs it to its next \<open>await\<close> or to its end. \<open>tasks\<close> lists every body that was
  started, with the document it captured and the point where it is suspended; \<open>promise\<close>
  is \<open>fontCache.promise\<close>, the index of the body whose promise is cached; \<open>fetches\<close>
  is the list of URLs passed to \<open>fetch\<close>, in order. A document is named by a number.
  An outcome that does not fit the awaited operation, or that names a body which was
  never started or has ended, changes nothing. \<open>addFileToVFS\<close> and \<open>addFont\<close> are
  taken to succeed.
\<close>

definition fontUrl :: jsstring where
  "fontUrl = js ''https://cdn.jsdelivr.net/gh/google/fonts@main/ofl/notosansarabic/NotoSansArabic%5Bwdth%2Cwght%5D.ttf''"

definition altFontUrl :: jsstring where
  "altFontUrl = js ''https://fonts.gstatic.com/s/notosansarabic/v18/nwpxtLGrOAZMl5nJ_wfgRg3DrWFZWsnVBJ_sS6tlqHHFlhQ5l3sQWIHPqzCfyGy2XMc2Rg5qM.woff2''"

definition b64 :: "nat \<Rightarrow> nat" where
  "b64 n = (if n < 26 then 65 + n
            else if n < 52 then 97 + (n - 26)
            else if n < 62 then 48 + (n - 52)
            else if n = 62 then 43 else 47)"

fun btoa :: "jsstring \<Rightarrow> jsstring" where
  "btoa (a # b # c # rest) =
     [b64 (a div 4), b64 ((a mod 4) * 16 + b div 16), b64 ((b mod 16) * 4 + c div 64),
      b64 (c mod 64)] @ btoa rest"
| "btoa [a, b] = [b64 (a div 4), b64 ((a mod 4) * 16 + b div 16), b64 ((b mod 16) * 4), 61]"
| "btoa [a] = [b64 (a div 4), b64 ((a mod 4) * 16), 61, 61]"
| "btoa [] = []"

datatype stage = AwaitPrimaryFetch | AwaitPrimaryBody | AwaitAltFetch | AwaitAltBody | Settled

datatype reply = Rejects | Response bool | Body "nat list"

datatype promise = CachedPromise nat | ResolvedPromise

record FontWorld =
  loaded :: bool
  promise :: "nat option"
  tasks :: "(nat \<times> stage) list"
  fetches :: "jsstring list"
  vfs :: "(nat \<times> jsstring \<times> jsstring) list"
  fontList :: "(nat \<times> jsstring) list"
  console :: "jsstring list"

definition initial :: FontWorld where
  "initial = \<lparr>loaded = False, promise = None, tasks = [], fetches = [], vfs = [],
              fontList = [], console = []\<rparr>"

definition loadUrduFont :: "nat \<Rightarrow> FontWorld \<Rightarrow> FontWorld \<times> promise" where
  "loadUrduFont doc w =
     (case promise w of
        Some p \<Rightarrow> (w, CachedPromise p)
      | None \<Rightarrow>
          if loaded w then (w, ResolvedPromise)
          else
            (let p = length (tasks w) in
             (w\<lparr>tasks := tasks w @ [(doc, AwaitPrimaryFetch)],
                fetches := fetches w @ [fontUrl],
                promise := Some p\<rparr>, CachedPromise p)))"

definition set_stage :: "nat \<Rightarrow> stage \<Rightarrow> FontWorld \<Rightarrow> FontWorld" where
  "set_stage i s w = w\<lparr>tasks := (tasks w)[i := (fst (tasks w ! i), s)]\<rparr>"

definition try_alternative :: "nat \<Rightarrow> FontWorld \<Rightarrow> FontWorld" where
  "try_alternative i w =
     set_stage i AwaitAltFetch
       (w\<lparr>console := console w @ [js ''Primary font CDN failed, trying alternative...''],
          fetches := fetches w @ [altFontUrl]\<rparr>)"

definition load_failed :: "nat \<Rightarrow> jsstring \<Rightarrow> FontWorld \<Rightarrow> FontWorld" where
  "load_failed i message w =
     set_stage i Settled
       (w\<lparr>console := console w @ [js ''Error loading Urdu font:'', message],
          loaded := False\<rparr>)"

definition embed :: "nat \<Rightarrow> nat list \<Rightarrow> FontWorld \<Rightarrow> FontWorld" where
  "embed i fontData w =
     (let doc = fst (tasks w ! i);
          bytes = map (\<lambda>b. b mod 256) fontData;
          fontBase64 = btoa bytes
      in set_stage i Settled
           (w\<lparr>vfs := vfs w @ [(doc, js ''NotoSansArabic-normal.ttf'', fontBase64)],
              fontList := fontList w @ [(doc, js ''NotoSansArabic'')],
              loaded := True,
              console := console w @ [js ''Urdu font loaded successfully'']\<rparr>))"

definition settle :: "nat \<Rightarrow> reply \<Rightarrow> FontWorld \<Rightarrow> FontWorld" where
  "settle i r w =
     (if i < length (tasks w) then
        (case (snd (tasks w ! i), r) of
           (AwaitPrimaryFetch, Response ok) \<Rightarrow>
             if ok then set_stage i AwaitPrimaryBody w
             else load_failed i (js ''Failed to fetch font data'') w
         | (AwaitPrimaryFetch, Rejects) \<Rightarrow> try_alternative i w
         | (AwaitPrimaryBody, Body fontData) \<Rightarrow> embed i fontData w
         | (AwaitPrimaryBody, Rejects) \<Rightarrow> try_alternative i w
         | (AwaitAltFetch, Response ok) \<Rightarrow>
             if ok then set_stage i AwaitAltBody w
             else load_failed i (js ''Failed to fetch font data'') w
         | (AwaitAltFetch, Rejects) \<Rightarrow> load_failed i (js ''Both font CDNs failed'') w
         | (AwaitAltBody, Body fontData) \<Rightarrow> embed i fontData w
         | (AwaitAltBody, Rejects) \<Rightarrow> load_failed i (js ''Both font CDNs failed'') w
         | _ \<Rightarrow> w)
      else w)"

datatype event = Call nat | Settle nat reply

fun exec :: "event list \<Rightarrow> FontWorld \<Rightarrow> FontWorld \<times> promise list" where
  "exec [] w = (w, [])"
| "exec (Call doc # es) w =
     (let (w', p) = loadUrduFont doc w; (w'', ps) = exec es w' in (w'', p # ps))"
| "exec (Settle i r # es) w = exec es (settle i r w)"


definition one_sequence :: "FontWorld \<Rightarrow> bool" where
  "one_sequence w =
     (case tasks w of
        [] \<Rightarrow> promise w = None \<and> fetches w = [] \<and> \<not> loaded w
      | [(doc, s)] \<Rightarrow>
          promise w = Some 0 \<and>
          (case s of
             AwaitPrimaryFetch \<Rightarrow> fetches w = [fontUrl] \<and> \<not> loaded w
           | AwaitPrimaryBody \<Rightarrow> fetches w = [fontUrl] \<and> \<not> loaded w
           | AwaitAltFetch \<Rightarrow> fetches w = [fontUrl, altFontUrl] \<and> \<not> loaded w
           | AwaitAltBody \<Rightarrow> fetches w = [fontUrl, altFontUrl] \<and> \<not> loaded w
           | Settled \<Rightarrow> fetches w = [fontUrl] \<or> fetches w = [fontUrl, altFontUrl])
      | _ \<Rightarrow> False)"

section \<open>Per-cell font choice of the Saudi export\<close>

text \<open>
  \<open>didParseCell\<close> receives the cell with the styles the table library has computed for
  it and may overwrite them. \<open>fonts\<close> is the set of keys of \<open>doc.getFontList()\<close>. The
  text of a cell is a list of lines; \<open>String\<close> joins them with commas.
  \<open>body_cell_styles\<close> is what a body cell arrives with under the options of the
  source: the font is \<open>styles.font\<close>, overridden by \<open>columnStyles[i].font\<close>; the fill
  is \<open>alternateRowStyles.fillColor\<close> on the rows the library treats as alternate and the
  white (255) of the grid theme on the others; the text colour is that of \<open>styles\<close>.
\<close>

definition is_urdu :: "nat \<Rightarrow> bool" where
  \<comment> \<open>the character class of \<open>urduRegex\<close>\<close>
  "is_urdu c =
     ((0x0600 \<le> c \<and> c \<le> 0x06FF) \<or> (0x0750 \<le> c \<and> c \<le> 0x077F)
      \<or> (0x08A0 \<le> c \<and> c \<le> 0x08FF) \<or> (0xFB50 \<le> c \<and> c \<le> 0xFDFF)
      \<or> (0xFE70 \<le> c \<and> c \<le> 0xFEFF))"

definition containsUrdu :: "jsstring \<Rightarrow> bool" where
  "containsUrdu text = (if text = [] then False else list_ex is_urdu text)"

fun join_comma :: "jsstring list \<Rightarrow> jsstring" where
  "join_comma [] = []"
| "join_comma [l] = l"
| "join_comma (l # ls) = l @ js '','' @ join_comma ls"

record CellStyles =
  font :: jsstring
  fontStyle :: jsstring
  fillColor :: "nat list"
  textColor :: "nat list"

record CellData =
  cell_text :: "jsstring list"
  column_index :: nat
  row_index :: nat
  cell_styles :: CellStyles

definition didParseCell :: "jsstring list \<Rightarrow> nat \<Rightarrow> CellData \<Rightarrow> CellStyles" where
  "didParseCell fonts tableData_length data =
     (let hasUrduFont = (js ''NotoSansArabic'' \<in> set fonts \<or> js ''NotoSansArabic-normal'' \<in> set fonts);
          cellText = join_comma (cell_text data);
          isUrduText = containsUrdu cellText;
          isUrduColumn = (column_index data \<in> set [0, 5]);
          isNumericColumn = (column_index data \<in> set [2, 3, 4, 6, 7]);
          styles1 =
            (if isNumericColumn \<or> (\<not> isUrduText \<and> \<not> isUrduColumn)
             then (cell_styles data)\<lparr>font := js ''helvetica''\<rparr>
             else if hasUrduFont \<and> (isUrduText \<or> isUrduColumn)
             then (cell_styles data)\<lparr>font := (if hasUrduFont then js ''NotoSansArabic''
                                                else js ''helvetica'')\<rparr>
             else cell_styles data)
      in if int (row_index data) = int tableData_length - 1
         then styles1\<lparr>fontStyle := js ''bold'', fillColor := [240, 240, 240],
                      textColor := [0, 0, 0]\<rparr>
         else styles1)"

definition columnStyles_font :: "nat \<Rightarrow> jsstring option" where
  "columnStyles_font i =
     (if i = 0 then Some (js ''NotoSansArabic'')
      else if i = 1 then Some (js ''helvetica'')
      else if i = 2 then Some (js ''helvetica'')
      else if i = 3 then Some (js ''helvetica'')
      else if i = 4 then Some (js ''helvetica'')
      else if i = 5 then Some (js ''NotoSansArabic'')
      else if i = 6 then Some (js ''helvetica'')
      else if i = 7 then Some (js ''helvetica'')
      else None)"

definition body_cell_styles :: "nat \<Rightarrow> bool \<Rightarrow> CellStyles" where
  "body_cell_styles i alternate =
     \<lparr>font = (case columnStyles_font i of Some f \<Rightarrow> f | None \<Rightarrow> js ''NotoSansArabic''),
      fontStyle = js ''normal'',
      fillColor = (if alternate then [245, 247, 250] else [255]),
      textColor = [0, 0, 0]\<rparr>"

section \<open>Example data\<close>

definition entry_a :: SaudiEntry where
  "entry_a = \<lparr>entry_id = js ''1'', date = js ''2024-01-10'', time = js ''10:30'',
              refNo = js ''REF1'', pkrAmount = 500000, riyalRate = 75.5, riyalAmount = None,
              submittedSar = 6000, reference2 = [], balance = None\<rparr>"

definition entry_b :: SaudiEntry where
  "entry_b = \<lparr>entry_id = js ''2'', date = js ''2024-02-05'', time = js ''09:00'',
              refNo = js ''REF2'', pkrAmount = 1000, riyalRate = 0, riyalAmount = None,
              submittedSar = 40, reference2 = js ''x'', balance = None\<rparr>"

definition entry_c :: SaudiEntry where
  "entry_c = \<lparr>entry_id = js ''3'', date = js ''2024-01-20'', time = js ''12:00'',
              refNo = js ''REF3'', pkrAmount = 750, riyalRate = 75, riyalAmount = Some 10,
              submittedSar = 3, reference2 = [], balance = Some 5\<rparr>"

definition special_a :: SpecialEntry where
  "special_a = \<lparr>id_sp = js ''1'', userName = js ''Ali'', date_sp = js ''2024-01-10'',
                balanceType = Online, nameRupees = 150000, submittedRupees = 120000,
                referencePerson = [], balance_sp = None\<rparr>"

definition special_b :: SpecialEntry where
  "special_b = \<lparr>id_sp = js ''2'', userName = js ''Omar'', date_sp = js ''2024-03-01'',
                balanceType = Cash, nameRupees = 900, submittedRupees = 100,
                referencePerson = js ''Zaid'', balance_sp = Some 750\<rparr>"

definition platform_a :: Platform where
  \<comment> \<open>a platform whose formatter is \<open>decimal\<close> of the integer part; 1 February 2024\<close>
  "platform_a = \<lparr>formatNumber = (\<lambda>x. decimal (nat \<lfloor>x\<rfloor>)), toFixed2 = (\<lambda>x. decimal (nat \<lfloor>x\<rfloor>)),
                 toISOString = js ''2024-02-01T08:15:30.000Z'',
                 toLocaleString = js ''2/1/2024, 8:15:30 AM'',
                 getNumberOfPages = 1, library_throws = False\<rparr>"

definition january :: DateFilter where
  "january = \<lparr>fromDate = js ''2024-01-01'', toDate = js ''2024-01-31''\<rparr>"

definition state_a :: "SaudiEntry PageState" where
  "state_a = \<lparr>entries = [entry_a, entry_b, entry_c], filteredEntries = [entry_a, entry_b, entry_c],
              dateFilter = january\<rparr>"

definition state_sp :: "SpecialEntry PageState" where
  "state_sp = \<lparr>entries = [special_a, special_b], filteredEntries = [special_a, special_b],
               dateFilter = january\<rparr>"

definition state_empty :: "SaudiEntry PageState" where
  "state_empty = \<lparr>entries = [], filteredEntries = [], dateFilter = january\<rparr>"

definition state_empty_sp :: "SpecialEntry PageState" where
  "state_empty_sp = \<lparr>entries = [], filteredEntries = [], dateFilter = january\<rparr>"


definition failed_world :: FontWorld where
  "failed_world =
     \<lparr>loaded = False, promise = Some 0, tasks = [(7, Settled)],
      fetches = [fontUrl, altFontUrl], vfs = [], fontList = [],
      console = [js ''Primary font CDN failed, trying alternative...'',
                 js ''Error loading Urdu font:'', js ''Both font CDNs failed'']\<rparr>"

definition date_cell :: "bool \<Rightarrow> CellData" where
  \<comment> \<open>the date cell of the first body row, on an alternate row or not\<close>
  "date_cell alternate = \<lparr>cell_text = [js ''2024-01-10''], column_index = 0, row_index = 0,
                          cell_styles = body_cell_styles 0 alternate\<rparr>"

definition builtin_fonts :: "jsstring list" where
  "builtin_fonts = [js ''helvetica'', js ''courier'', js ''times'']"

section \<open>Basic facts\<close>

lemma reduce_map:
  fixes f :: "'a \<Rightarrow> real"
  shows "reduce (\<lambda>sum entry. sum + f entry) 0 xs = foldl (+) 0 (map f xs)"
  by (simp add: reduce_def foldl_map)

lemma or_zero_id: "or_zero x = x"
  by (simp add: or_zero_def)

lemma pdf_riyalAmount_spec: "pdf_riyalAmount e = spec_riyalAmount e"
  by (cases "riyalAmount e") (simp_all add: pdf_riyalAmount_def spec_riyalAmount_def)

lemma pdf_balance_spec: "pdf_balance e = spec_saudi_balance e"
  by (cases "balance e") (simp_all add: pdf_balance_def spec_saudi_balance_def pdf_riyalAmount_spec)

lemma column_balance_spec: "column_balance e = spec_saudi_balance e"
  by (cases "balance e"; cases "riyalAmount e")
     (simp_all add: column_balance_def spec_saudi_balance_def spec_riyalAmount_def)

lemma filter_pred_in_range: "filter_pred df d = in_range df d"
  by (auto simp: filter_pred_def in_range_def)

lemma dataToExport_Nil:
  "dataToExport st = [] \<longleftrightarrow> filteredEntries st = [] \<and> entries st = []"
  by (auto simp: dataToExport_def)

lemma saudi_fileName_spec:
  "saudi_fileName env df = spec_fileName ''Saudi'' (fromDate df) (toDate df) (isoDate env)"
  by (simp add: saudi_fileName_def spec_fileName_def or_str_def js_def)

lemma special_fileName_spec:
  "special_fileName env df = spec_fileName ''Special'' (fromDate df) (toDate df) (isoDate env)"
  by (simp add: special_fileName_def spec_fileName_def or_str_def js_def)

lemma totalPKR_fold: "totalPKR data = foldl (+) 0 (map pkrAmount data)"
  by (simp add: totalPKR_def or_zero_id reduce_map)

lemma totalSubmittedSAR_fold: "totalSubmittedSAR data = foldl (+) 0 (map submittedSar data)"
  by (simp add: totalSubmittedSAR_def or_zero_id reduce_map)

lemma totalRiyal_fold: "totalRiyal data = foldl (+) 0 (map pdf_riyalAmount data)"
proof -
  have "totalRiyal data = reduce (\<lambda>sum entry. sum + pdf_riyalAmount entry) 0 data"
    by (simp add: totalRiyal_def pdf_riyalAmount_def Let_def)
  then show ?thesis by (simp add: reduce_map)
qed

lemma totalNameRupees_fold: "totalNameRupees data = foldl (+) 0 (map nameRupees data)"
  by (simp add: totalNameRupees_def or_zero_id reduce_map)

lemma totalSubmittedRupees_fold:
  "totalSubmittedRupees data = foldl (+) 0 (map submittedRupees data)"
  by (simp add: totalSubmittedRupees_def or_zero_id reduce_map)

lemma totalBalance_fold: "totalBalance data = foldl (+) 0 (map pdf_balance_sp data)"
proof -
  have "totalBalance data = reduce (\<lambda>sum entry. sum + pdf_balance_sp entry) 0 data"
    by (simp add: totalBalance_def pdf_balance_sp_def Let_def)
  then show ?thesis by (simp add: reduce_map)
qed

lemma isoDate_prefix:
  assumes "toISOString env = today @ of_char CHR ''T'' # rest"
    and "of_char CHR ''T'' \<notin> set today"
  shows "isoDate env = today"
proof -
  have "takeWhile (\<lambda>c. c \<noteq> of_char CHR ''T'') (today @ of_char CHR ''T'' # rest) = today"
    using assms(2) by (induction today) auto
  then show ?thesis by (simp add: isoDate_def assms(1))
qed









lemma one_sequence_initial: "one_sequence initial"
  by (simp add: one_sequence_def initial_def)

lemma one_sequence_cases:
  assumes "one_sequence w"
  obtains (idle) "tasks w = []" "promise w = None" "fetches w = []" "\<not> loaded w"
    | (started) doc s where "tasks w = [(doc, s)]" "promise w = Some 0"
proof (cases "tasks w")
  case Nil
  with assms idle show ?thesis by (simp add: one_sequence_def)
next
  case (Cons t ts)
  obtain doc s where t: "t = (doc, s)" by (cases t)
  from assms Cons t have "ts = []" and "promise w = Some 0"
    by (auto simp: one_sequence_def split: list.splits)
  with Cons t started show ?thesis by simp
qed

lemma loadUrduFont_one_sequence:
  assumes "one_sequence w"
  shows "one_sequence (fst (loadUrduFont doc w))"
    and "snd (loadUrduFont doc w) = CachedPromise 0"
    and "promise (fst (loadUrduFont doc w)) = Some 0"
proof -
  from assms
  have "one_sequence (fst (loadUrduFont doc w)) \<and> snd (loadUrduFont doc w) = CachedPromise 0
        \<and> promise (fst (loadUrduFont doc w)) = Some 0"
  proof (cases rule: one_sequence_cases)
    case idle
    then show ?thesis by (simp add: loadUrduFont_def one_sequence_def Let_def)
  next
    case (started d s)
    with assms show ?thesis by (simp add: loadUrduFont_def)
  qed
  then show "one_sequence (fst (loadUrduFont doc w))"
    and "snd (loadUrduFont doc w) = CachedPromise 0"
    and "promise (fst (loadUrduFont doc w)) = Some 0"
    by simp_all
qed

lemma settle_promise: "promise (settle i r w) = promise w"
  by (simp add: settle_def set_stage_def try_alternative_def load_failed_def embed_def Let_def
        split: stage.splits reply.splits)

lemma settle_one_sequence:
  assumes "one_sequence w"
  shows "one_sequence (settle i r w)"
  using assms
proof (cases rule: one_sequence_cases)
  case idle
  then show ?thesis using assms by (simp add: settle_def)
next
  case (started doc s)
  show ?thesis
  proof (cases "i = 0")
    case False
    then show ?thesis using assms started by (simp add: settle_def)
  next
    case True
    with assms started show ?thesis
      by (cases s; cases r)
         (auto simp: settle_def one_sequence_def set_stage_def try_alternative_def
            load_failed_def embed_def Let_def)
  qed
qed

lemma exec_one_sequence:
  assumes "one_sequence w" and "exec es w = (w', ps)"
  shows "one_sequence w' \<and> (\<forall>p \<in> set ps. p = CachedPromise 0)
         \<and> (promise w = Some 0 \<or> (\<exists>doc. Call doc \<in> set es) \<longrightarrow> promise w' = Some 0)"
  using assms
proof (induction es arbitrary: w w' ps)
  case Nil
  then show ?case by simp
next
  case (Cons e es)
  show ?case
  proof (cases e)
    case (Call doc)
    obtain w1 p where l: "loadUrduFont doc w = (w1, p)" by (cases "loadUrduFont doc w")
    obtain w2 ps2 where x: "exec es w1 = (w2, ps2)" by (cases "exec es w1")
    from Cons.prems(2) Call l x have eq: "w' = w2" "ps = p # ps2" by simp_all
    from loadUrduFont_one_sequence [OF Cons.prems(1), of doc] l
    have w1: "one_sequence w1" "p = CachedPromise 0" "promise w1 = Some 0" by simp_all
    from Cons.IH [OF w1(1) x] w1 eq show ?thesis by simp
  next
    case (Settle i r)
    with Cons.prems(2) have x: "exec es (settle i r w) = (w', ps)" by simp
    from Cons.IH [OF settle_one_sequence [OF Cons.prems(1)] x] Settle
    show ?thesis by (auto simp: settle_promise)
  qed
qed

lemma settled_loadUrduFont:
  "promise w = Some p \<Longrightarrow> loadUrduFont doc w = (w, CachedPromise p)"
  by (simp add: loadUrduFont_def)

lemma settled_settle:
  "tasks w = [(doc, Settled)] \<Longrightarrow> settle i r w = w"
  by (cases r) (simp_all add: settle_def)

lemma settled_exec:
  assumes "tasks w = [(doc, Settled)]" and "promise w = Some p"
  shows "fst (exec es w) = w \<and> set (snd (exec es w)) \<subseteq> {CachedPromise p}"
proof (induction es)
  case Nil
  then show ?case by simp
next
  case (Cons e es)
  then show ?case
    by (cases e) (auto simp: settled_loadUrduFont [OF assms(2)] settled_settle [OF assms(1)]
          split: prod.splits)
qed

lemma failed_run:
  "exec [Call 7, Call 8, Settle 0 Rejects, Call 9, Settle 0 Rejects] initial
     = (failed_world, [CachedPromise 0, CachedPromise 0, CachedPromise 0])"
  by (simp add: initial_def failed_world_def loadUrduFont_def settle_def set_stage_def
        try_alternative_def load_failed_def Let_def)

lemma primary_rejection_alternate_once:
  "fetches (fst (exec [Call doc, Settle 0 Rejects] initial)) = [fontUrl, altFontUrl]"
  "fetches (fst (exec [Call doc, Settle 0 (Response True), Settle 0 Rejects] initial))
     = [fontUrl, altFontUrl]"
  by (simp_all add: initial_def loadUrduFont_def settle_def set_stage_def try_alternative_def
        Let_def)

lemma both_sources_fail:
  assumes "r1 = Rejects \<or> r1 = Response False" and "r2 = Rejects \<or> r2 = Response False"
  shows "tasks (fst (exec [Call doc, Settle 0 r1, Settle 0 r2] initial)) = [(doc, Settled)]"
    and "\<not> loaded (fst (exec [Call doc, Settle 0 r1, Settle 0 r2] initial))"
  using assms
  by (auto simp: initial_def loadUrduFont_def settle_def set_stage_def try_alternative_def
        load_failed_def Let_def)

lemma btoa_examples:
  "btoa (js ''Man'') = js ''TWFu''" "btoa (js ''Ma'') = js ''TWE=''" "btoa (js ''M'') = js ''TQ==''"
  by (simp_all add: js_def b64_def)

lemma containsUrdu_examples:
  "containsUrdu [0x62D, 0x648, 0x627, 0x644, 0x6C1]" "\<not> containsUrdu (js ''Balance'')"
  "\<not> containsUrdu []"
  by (simp_all add: containsUrdu_def is_urdu_def js_def)

lemma containsUrdu_iff: "containsUrdu text \<longleftrightarrow> (\<exists>c \<in> set text. is_urdu c)"
  by (auto simp: containsUrdu_def list_ex_iff)

lemma didParseCell_font:
  "font (didParseCell fonts n data) =
     (if column_index data \<in> {2, 3, 4, 6, 7} then js ''helvetica''
      else if (js ''NotoSansArabic'' \<in> set fonts \<or> js ''NotoSansArabic-normal'' \<in> set fonts)
              \<and> (containsUrdu (join_comma (cell_text data)) \<or> column_index data \<in> {0, 5})
      then js ''NotoSansArabic''
      else if \<not> containsUrdu (join_comma (cell_text data)) \<and> column_index data \<notin> {0, 5}
      then js ''helvetica''
      else font (cell_styles data))"
  by (simp add: didParseCell_def Let_def)

section \<open>Claims about balances\<close>

text \<open>
  C1. For every Saudi entry, the balance of the table's balance column and the balance of
  each PDF body row (formatted into cell 6 of the row) are the stored \<open>balance\<close> when it
  is present; when it is absent they are \<open>riyalAmount - submittedSar\<close>, where
  \<open>riyalAmount\<close> is the stored one when present, else \<open>pkrAmount / riyalRate\<close> when
  \<open>riyalRate > 0\<close>, else 0. With nothing stored and \<open>riyalRate = 0\<close> the balance is
  \<open>- submittedSar\<close>.
\<close>

theorem saudi_balance_rule:
  "column_balance e = spec_saudi_balance e
   \<and> pdf_balance e = spec_saudi_balance e
   \<and> saudi_row fmt fx e ! 6 = fmt (spec_saudi_balance e) @ js '' SAR''
   \<and> (balance e = Some b \<longrightarrow> column_balance e = b \<and> pdf_balance e = b)
   \<and> (balance e = None \<and> riyalAmount e = Some r \<longrightarrow>
        column_balance e = r - submittedSar e \<and> pdf_balance e = r - submittedSar e)
   \<and> (balance e = None \<and> riyalAmount e = None \<and> riyalRate e > 0 \<longrightarrow>
        column_balance e = pkrAmount e / riyalRate e - submittedSar e
        \<and> pdf_balance e = pkrAmount e / riyalRate e - submittedSar e)
   \<and> (balance e = None \<and> riyalAmount e = None \<and> \<not> riyalRate e > 0 \<longrightarrow>
        column_balance e = - submittedSar e \<and> pdf_balance e = - submittedSar e)"
  by (simp add: column_balance_spec pdf_balance_spec saudi_row_def
        spec_saudi_balance_def spec_riyalAmount_def)

theorem saudi_balance_rule_witness:
  "balance entry_c = Some 5 \<and> column_balance entry_c = 5 \<and> pdf_balance entry_c = 5
   \<and> balance (entry_c\<lparr>balance := None\<rparr>) = None
   \<and> riyalAmount (entry_c\<lparr>balance := None\<rparr>) = Some 10
   \<and> column_balance (entry_c\<lparr>balance := None\<rparr>) = 7
   \<and> balance entry_a = None \<and> riyalAmount entry_a = None \<and> riyalRate entry_a > 0
   \<and> column_balance entry_a = 94000 / 151 \<and> pdf_balance entry_a = 94000 / 151
   \<and> balance entry_b = None \<and> riyalAmount entry_b = None \<and> \<not> riyalRate entry_b > 0
   \<and> column_balance entry_b = - 40 \<and> pdf_balance entry_b = - 40"
  using saudi_balance_rule [of entry_c _ _ 5 10]
        saudi_balance_rule [of "entry_c\<lparr>balance := None\<rparr>" _ _ 0 10]
        saudi_balance_rule [of entry_a]
        saudi_balance_rule [of entry_b]
  by (simp add: entry_a_def entry_b_def entry_c_def spec_saudi_balance_def spec_riyalAmount_def)

text \<open>
  C9. For every Special entry, the balance of the table's balance column and the balance
  of each PDF body row (formatted into cell 6 of the row) are the stored \<open>balance\<close> when
  it is present, and \<open>nameRupees - submittedRupees\<close> when it is absent.
\<close>

theorem special_balance_rule:
  "column_balance_sp e = spec_special_balance e
   \<and> pdf_balance_sp e = spec_special_balance e
   \<and> special_row fmt e ! 6 = fmt (spec_special_balance e) @ js '' PKR''
   \<and> (balance_sp e = Some b \<longrightarrow> column_balance_sp e = b \<and> pdf_balance_sp e = b)
   \<and> (balance_sp e = None \<longrightarrow>
        column_balance_sp e = nameRupees e - submittedRupees e
        \<and> pdf_balance_sp e = nameRupees e - submittedRupees e)"
  by (cases "balance_sp e")
     (simp_all add: column_balance_sp_def pdf_balance_sp_def special_row_def
        spec_special_balance_def calculateSpecialBalance_def)

theorem special_balance_rule_witness:
  "balance_sp special_b = Some 750
   \<and> column_balance_sp special_b = 750 \<and> pdf_balance_sp special_b = 750
   \<and> balance_sp special_a = None
   \<and> column_balance_sp special_a = 30000 \<and> pdf_balance_sp special_a = 30000"
  using special_balance_rule [of special_b _ 750] special_balance_rule [of special_a]
  by (simp add: special_a_def special_b_def spec_special_balance_def)

section \<open>Claims about the date filter and the export\<close>

text \<open>
  C6. For every fetched entry list and every date filter, applying the filter puts an
  entry into the filtered list \<open>filteredEntries\<close> iff \<open>fromDate <= entry.date <= toDate\<close>,
  a missing (empty) bound constraining nothing on its side, and keeps the order of the
  fetched list. Clearing the filter, or filtering with both bounds empty, makes the
  filtered list the originally fetched list, in membership and order.
\<close>

theorem date_filter_rule:
  "filteredEntries (handleFilter date_of st)
     = filter (\<lambda>e. in_range (dateFilter st) (date_of e)) (entries st)
   \<and> (e \<in> set (filteredEntries (handleFilter date_of st))
        \<longleftrightarrow> e \<in> set (entries st) \<and> in_range (dateFilter st) (date_of e))
   \<and> (fromDate (dateFilter st) = [] \<and> toDate (dateFilter st) = []
        \<longrightarrow> filteredEntries (handleFilter date_of st) = entries st)
   \<and> filteredEntries (handleClearFilter st) = entries st
   \<and> dateFilter (handleClearFilter st) = \<lparr>fromDate = [], toDate = []\<rparr>
   \<and> entries (handleFilter date_of st) = entries st
   \<and> entries (handleClearFilter st) = entries st
   \<and> filteredEntries (handleClearFilter (handleFilter date_of (fetchEntries data st))) = data"
  by (auto simp: handleFilter_def handleClearFilter_def fetchEntries_def filter_pred_in_range
        in_range_def)

theorem date_filter_rule_witness:
  "filteredEntries (handleFilter date state_a) = [entry_a, entry_c]
   \<and> entry_c \<in> set (filteredEntries (handleFilter date state_a))
   \<and> entry_b \<notin> set (filteredEntries (handleFilter date state_a))
   \<and> \<not> in_range january (date entry_b)
   \<and> fromDate (dateFilter (handleClearFilter state_a)) = []
   \<and> toDate (dateFilter (handleClearFilter state_a)) = []
   \<and> filteredEntries (handleFilter date (handleClearFilter state_a)) = [entry_a, entry_b, entry_c]"
  using date_filter_rule [of date state_a entry_c]
        date_filter_rule [of date state_a entry_b]
        date_filter_rule [of date "handleClearFilter state_a"]
  by (simp add: state_a_def january_def entry_a_def entry_b_def entry_c_def in_range_def js_def
        handleClearFilter_def)

text \<open>
  C7. In every state whose effective dataset (the filtered list if it is non-empty, else
  the full list) is empty, both export routines return before a document is constructed:
  the only thing they do is raise the notice "No data to export"; no document is created
  and no file is saved.
\<close>

theorem empty_export:
  "(dataToExport st = [] \<longleftrightarrow> filteredEntries st = [] \<and> entries st = [])
   \<and> (dataToExport st = [] \<longrightarrow>
        handleDownloadPDF env st = [Alert (js ''No data to export'')]
        \<and> NewDocument \<notin> set (handleDownloadPDF env st)
        \<and> (\<forall>f. Save f \<notin> set (handleDownloadPDF env st)))
   \<and> (dataToExport st' = [] \<longleftrightarrow> filteredEntries st' = [] \<and> entries st' = [])
   \<and> (dataToExport st' = [] \<longrightarrow>
        handleDownloadPDF_sp env st' = [Alert (js ''No data to export'')]
        \<and> NewDocument \<notin> set (handleDownloadPDF_sp env st')
        \<and> (\<forall>f. Save f \<notin> set (handleDownloadPDF_sp env st')))"
  by (simp add: dataToExport_Nil handleDownloadPDF_def handleDownloadPDF_sp_def)

theorem empty_export_witness:
  "dataToExport state_empty = []
   \<and> handleDownloadPDF platform_a state_empty = [Alert (js ''No data to export'')]
   \<and> dataToExport state_empty_sp = []
   \<and> handleDownloadPDF_sp platform_a state_empty_sp = [Alert (js ''No data to export'')]"
  using empty_export [of state_empty platform_a state_empty_sp]
  by (simp add: state_empty_def state_empty_sp_def)

text \<open>
  C8. For every filter state and current date, the name under which an export is saved is
  \<open><ReportKind>_Hisaab_Kitaab_<fromDate or 'all'>_<toDate or 'all'>_<ISO date>.pdf\<close>,
  the ISO date being the part of the current ISO timestamp before its \<open>T\<close>; it depends
  on the filter bounds and that date only. The filter 2024-01-01 to 2024-01-31 on
  2024-02-01 gives \<open>Saudi_Hisaab_Kitaab_2024-01-01_2024-01-31_2024-02-01.pdf\<close>.
\<close>

theorem export_fileName:
  "saudi_fileName env df = spec_fileName ''Saudi'' (fromDate df) (toDate df) (isoDate env)
   \<and> special_fileName env df = spec_fileName ''Special'' (fromDate df) (toDate df) (isoDate env)
   \<and> (dataToExport st \<noteq> [] \<and> \<not> library_throws env \<longrightarrow>
        last (handleDownloadPDF env st)
          = Save (spec_fileName ''Saudi'' (fromDate (dateFilter st)) (toDate (dateFilter st))
                    (isoDate env)))
   \<and> (dataToExport st' \<noteq> [] \<and> \<not> library_throws env \<longrightarrow>
        last (handleDownloadPDF_sp env st')
          = Save (spec_fileName ''Special'' (fromDate (dateFilter st')) (toDate (dateFilter st'))
                    (isoDate env)))
   \<and> (isoDate env' = isoDate env \<longrightarrow>
        saudi_fileName env' df = saudi_fileName env df
        \<and> special_fileName env' df = special_fileName env df)
   \<and> isoDate env = takeWhile (\<lambda>c. c \<noteq> of_char CHR ''T'') (toISOString env)
   \<and> (toISOString env = today @ of_char CHR ''T'' # rest \<and> of_char CHR ''T'' \<notin> set today \<longrightarrow>
        isoDate env = today
        \<and> saudi_fileName env df = spec_fileName ''Saudi'' (fromDate df) (toDate df) today
        \<and> special_fileName env df = spec_fileName ''Special'' (fromDate df) (toDate df) today
        \<and> (dataToExport st \<noteq> [] \<and> \<not> library_throws env \<longrightarrow>
             last (handleDownloadPDF env st)
               = Save (spec_fileName ''Saudi'' (fromDate (dateFilter st))
                         (toDate (dateFilter st)) today))
        \<and> (dataToExport st' \<noteq> [] \<and> \<not> library_throws env \<longrightarrow>
             last (handleDownloadPDF_sp env st')
               = Save (spec_fileName ''Special'' (fromDate (dateFilter st'))
                         (toDate (dateFilter st')) today)))"
proof -
  have a: "saudi_fileName env df = spec_fileName ''Saudi'' (fromDate df) (toDate df) (isoDate env)"
    and b: "special_fileName env df
              = spec_fileName ''Special'' (fromDate df) (toDate df) (isoDate env)"
    by (simp_all add: saudi_fileName_spec special_fileName_spec)
  have c: "dataToExport st \<noteq> [] \<and> \<not> library_throws env \<longrightarrow>
        last (handleDownloadPDF env st)
          = Save (spec_fileName ''Saudi'' (fromDate (dateFilter st)) (toDate (dateFilter st))
                    (isoDate env))"
    by (simp add: saudi_fileName_spec handleDownloadPDF_def Let_def)
  have d: "dataToExport st' \<noteq> [] \<and> \<not> library_throws env \<longrightarrow>
        last (handleDownloadPDF_sp env st')
          = Save (spec_fileName ''Special'' (fromDate (dateFilter st')) (toDate (dateFilter st'))
                    (isoDate env))"
    by (simp add: special_fileName_spec handleDownloadPDF_sp_def Let_def)
  have e: "isoDate env' = isoDate env \<longrightarrow>
        saudi_fileName env' df = saudi_fileName env df
        \<and> special_fileName env' df = special_fileName env df"
    by (simp add: saudi_fileName_spec special_fileName_spec)
  have f: "isoDate env = takeWhile (\<lambda>c. c \<noteq> of_char CHR ''T'') (toISOString env)"
    by (simp add: isoDate_def)
  have g: "toISOString env = today @ of_char CHR ''T'' # rest \<and> of_char CHR ''T'' \<notin> set today
           \<longrightarrow> isoDate env = today"
    using isoDate_prefix by blast
  from a b c d e f g show ?thesis by metis
qed

theorem export_fileName_witness:
  "dataToExport state_a \<noteq> [] \<and> \<not> library_throws platform_a
   \<and> toISOString platform_a = js ''2024-02-01'' @ of_char CHR ''T'' # js ''08:15:30.000Z''
   \<and> of_char CHR ''T'' \<notin> set (js ''2024-02-01'')
   \<and> isoDate platform_a = js ''2024-02-01''
   \<and> last (handleDownloadPDF platform_a state_a)
       = Save (js ''Saudi_Hisaab_Kitaab_2024-01-01_2024-01-31_2024-02-01.pdf'')
   \<and> dataToExport state_sp \<noteq> []
   \<and> last (handleDownloadPDF_sp platform_a state_sp)
       = Save (js ''Special_Hisaab_Kitaab_2024-01-01_2024-01-31_2024-02-01.pdf'')
   \<and> last (handleDownloadPDF platform_a (handleClearFilter state_a))
       = Save (js ''Saudi_Hisaab_Kitaab_all_all_2024-02-01.pdf'')"
  using export_fileName [of platform_a january state_a state_sp platform_a
          "js ''2024-02-01''" "js ''08:15:30.000Z''"]
        export_fileName [of platform_a january "handleClearFilter state_a" state_sp platform_a
          "js ''2024-02-01''" "js ''08:15:30.000Z''"]
  by (simp add: state_a_def state_sp_def platform_a_def january_def dataToExport_def
        spec_fileName_def js_def handleClearFilter_def)

text \<open>
  C2 (as amended). In both exported reports the TOTALS row is the last row of the table,
  below one row per exported entry, and each of its numeric cells is the row formatter
  applied to the total of the values formatted in that column of the rows above, the
  total being accumulated from 0 in row order: PKR amount, riyal amount and submitted SAR
  on the Saudi page; name rupees, submitted rupees and the per-row balance on the Special
  page. The Saudi TOTALS balance cell is not such a column total: it formats the riyal
  total minus the submitted total and does not read the balances of the rows.
\<close>

theorem totals_row_sums:
  "saudi_totals_row fmt data =
     [ [], js ''TOTALS'',
       fmt (foldl (+) 0 (map pkrAmount data)) @ js '' PKR'',
       fmt (foldl (+) 0 (map pdf_riyalAmount data)) @ js '' SAR'',
       fmt (foldl (+) 0 (map submittedSar data)) @ js '' SAR'',
       [],
       fmt (foldl (+) 0 (map pdf_riyalAmount data) - foldl (+) 0 (map submittedSar data))
         @ js '' SAR'',
       [] ]
   \<and> special_totals_row fmt data' =
     [ [], [], js ''TOTALS'',
       fmt (foldl (+) 0 (map nameRupees data')) @ js '' PKR'',
       fmt (foldl (+) 0 (map submittedRupees data')) @ js '' PKR'',
       [],
       fmt (foldl (+) 0 (map pdf_balance_sp data')) @ js '' PKR'' ]
   \<and> saudi_tableData env data
       = map (saudi_row (formatNumber env) (toFixed2 env)) data
         @ [saudi_totals_row (formatNumber env) data]
   \<and> special_tableData env data'
       = map (special_row (formatNumber env)) data' @ [special_totals_row (formatNumber env) data']
   \<and> (i < length data \<longrightarrow>
        saudi_tableData env data ! i =
          [ date (data ! i), or_str (refNo (data ! i)) (js ''-''),
            formatNumber env (pkrAmount (data ! i)) @ js '' PKR'',
            formatNumber env (pdf_riyalAmount (data ! i)) @ js '' SAR'',
            formatNumber env (submittedSar (data ! i)) @ js '' SAR'',
            or_str (reference2 (data ! i)) (js ''-''),
            formatNumber env (pdf_balance (data ! i)) @ js '' SAR'',
            toFixed2 env (riyalRate (data ! i)) ])
   \<and> (j < length data' \<longrightarrow>
        special_tableData env data' ! j =
          [ or_str (userName (data' ! j)) (js ''-''), date_sp (data' ! j),
            balanceType_str (balanceType (data' ! j)),
            formatNumber env (nameRupees (data' ! j)) @ js '' PKR'',
            formatNumber env (submittedRupees (data' ! j)) @ js '' PKR'',
            or_str (referencePerson (data' ! j)) (js ''-''),
            formatNumber env (pdf_balance_sp (data' ! j)) @ js '' PKR'' ])"
  by (simp add: saudi_totals_row_def special_totals_row_def totalPKR_fold totalRiyal_fold
        totalSubmittedSAR_fold totalNameRupees_fold totalSubmittedRupees_fold totalBalance_fold
        saudi_tableData_def special_tableData_def nth_append saudi_row_def special_row_def)

theorem totals_row_sums_witness:
  "(1::nat) < length [entry_a, entry_b]
   \<and> saudi_tableData platform_a [entry_a, entry_b] ! 1 ! 4
       = formatNumber platform_a 40 @ js '' SAR''
   \<and> saudi_totals_row (formatNumber platform_a) [entry_a, entry_b] ! 4
       = formatNumber platform_a 6040 @ js '' SAR''
   \<and> saudi_totals_row (formatNumber platform_a) [entry_c] ! 6
       = formatNumber platform_a 7 @ js '' SAR''
   \<and> (1::nat) < length [special_a, special_b]
   \<and> special_tableData platform_a [special_a, special_b] ! 1 ! 6
       = formatNumber platform_a 750 @ js '' PKR''
   \<and> special_totals_row (formatNumber platform_a) [special_a, special_b] ! 6
       = formatNumber platform_a 30750 @ js '' PKR''"
  using totals_row_sums [of "formatNumber platform_a" "[entry_a, entry_b]" "[special_a, special_b]"
          platform_a 1 1]
        totals_row_sums [of "formatNumber platform_a" "[entry_c]"]
  by (simp add: entry_a_def entry_b_def entry_c_def special_a_def special_b_def
        saudi_tableData_def saudi_row_def saudi_totals_row_def special_tableData_def
        special_row_def special_totals_row_def totalRiyal_def totalSubmittedSAR_def
        totalBalance_def reduce_def or_zero_def pdf_balance_sp_def)

text \<open>
  C2 as stated fails on the Saudi page: for an entry that stores the balance 5 with riyal
  amount 10 and submitted amount 3, the row above shows the balance 5, and the value
  formatted into the TOTALS balance cell is 7.
\<close>

theorem saudi_totals_balance_counterexample:
  "totalRiyal [entry_c] - totalSubmittedSAR [entry_c] = 7
   \<and> sum_list (map pdf_balance [entry_c]) = 5
   \<and> totalRiyal [entry_c] - totalSubmittedSAR [entry_c] \<noteq> sum_list (map pdf_balance [entry_c])"
  by (simp add: totalRiyal_def totalSubmittedSAR_def reduce_def or_zero_def pdf_balance_def
        entry_c_def)



section \<open>Claims about fonts\<close>

text \<open>
  C3. The claim: whenever the primary fetch fails, by a thrown network error or by a
  non-ok response, exactly one fetch of the alternate source is attempted; and when both
  sources fail the promise resolves and the loader stays marked not loaded. The code tries
  the alternate source only in the \<open>catch\<close> of the primary fetch. When the primary
  fetch answers with a response that is not ok, nothing is thrown there: the only URL ever
  fetched is the primary one, and the load ends as failed.
\<close>

theorem primary_not_ok_no_alternate:
  "fetches (fst (exec [Call 0, Settle 0 (Response False)] initial)) = [fontUrl]
   \<and> altFontUrl \<notin> set (fetches (fst (exec [Call 0, Settle 0 (Response False)] initial)))
   \<and> tasks (fst (exec [Call 0, Settle 0 (Response False)] initial)) = [(0, Settled)]
   \<and> \<not> loaded (fst (exec [Call 0, Settle 0 (Response False)] initial))"
  by (simp add: initial_def loadUrduFont_def settle_def set_stage_def load_failed_def Let_def
        fontUrl_def altFontUrl_def js_def)

text \<open>
  C4. Across every sequence of calls of \<open>loadUrduFont\<close> and network outcomes, at most
  one body is ever started and the URLs fetched are at most the primary one followed by
  the alternate one; every call returns the one cached promise, which is installed by the
  first call and never cleared; and once that load has ended as failed, no later call or
  event changes anything: nothing is fetched again.
\<close>

theorem single_fetch_sequence:
  assumes "exec es initial = (w, ps)"
  shows "length (tasks w) \<le> 1
         \<and> (fetches w = [] \<or> fetches w = [fontUrl] \<or> fetches w = [fontUrl, altFontUrl])
         \<and> (\<forall>p \<in> set ps. p = CachedPromise 0)
         \<and> ((\<exists>doc. Call doc \<in> set es) \<longrightarrow> promise w = Some 0)
         \<and> (tasks w = [(doc, Settled)] \<and> \<not> loaded w \<longrightarrow>
              fst (exec es' w) = w \<and> set (snd (exec es' w)) \<subseteq> {CachedPromise 0})"
proof -
  from exec_one_sequence [OF one_sequence_initial assms]
  have inv: "one_sequence w" and ps: "\<forall>p \<in> set ps. p = CachedPromise 0"
    and pr: "(\<exists>doc. Call doc \<in> set es) \<longrightarrow> promise w = Some 0"
    by simp_all
  have len: "length (tasks w) \<le> 1"
    using inv by (cases rule: one_sequence_cases) simp_all
  have fe: "fetches w = [] \<or> fetches w = [fontUrl] \<or> fetches w = [fontUrl, altFontUrl]"
    using inv
  proof (cases rule: one_sequence_cases)
    case idle
    then show ?thesis by simp
  next
    case (started d s)
    with inv show ?thesis by (cases s) (auto simp: one_sequence_def)
  qed
  have st: "tasks w = [(doc, Settled)] \<and> \<not> loaded w \<longrightarrow>
              fst (exec es' w) = w \<and> set (snd (exec es' w)) \<subseteq> {CachedPromise 0}"
  proof
    assume a: "tasks w = [(doc, Settled)] \<and> \<not> loaded w"
    with inv have "promise w = Some 0" by (cases rule: one_sequence_cases) simp_all
    with a show "fst (exec es' w) = w \<and> set (snd (exec es' w)) \<subseteq> {CachedPromise 0}"
      using settled_exec by blast
  qed
  from len fe ps pr st show ?thesis by blast
qed

theorem single_fetch_sequence_witness:
  "exec [Call 7, Call 8, Settle 0 Rejects, Call 9, Settle 0 Rejects] initial
     = (failed_world, [CachedPromise 0, CachedPromise 0, CachedPromise 0])
   \<and> tasks failed_world = [(7, Settled)] \<and> \<not> loaded failed_world
   \<and> fetches failed_world = [fontUrl, altFontUrl]
   \<and> exec [Call 10, Settle 0 (Response True), Call 11] failed_world
       = (failed_world, [CachedPromise 0, CachedPromise 0])"
  using single_fetch_sequence [OF failed_run, of 7 "[Call 10, Settle 0 (Response True), Call 11]"]
        failed_run
  by (simp add: failed_world_def loadUrduFont_def settle_def)

text \<open>
  C5. The claim: a cell in a numeric column (2, 3, 4, 6, 7) gets helvetica; otherwise, if
  the RTL font is registered and the text contains an Arabic/Urdu code unit or the column
  is 0 or 5, it gets the RTL font; otherwise it falls back to helvetica. The code leaves
  the font untouched in the last case when the text is Urdu or the column is 0 or 5: with
  the RTL font not registered, a date cell (column 0) keeps the font \<open>NotoSansArabic\<close>
  it arrived with.
\<close>

theorem unregistered_font_kept:
  "js ''NotoSansArabic'' \<notin> set builtin_fonts
   \<and> js ''NotoSansArabic-normal'' \<notin> set builtin_fonts
   \<and> column_index (date_cell True) = 0
   \<and> font (cell_styles (date_cell True)) = js ''NotoSansArabic''
   \<and> font (didParseCell builtin_fonts 2 (date_cell True)) = js ''NotoSansArabic''
   \<and> font (didParseCell builtin_fonts 2 (date_cell True)) \<noteq> js ''helvetica''
   \<and> column_index (date_cell False) = 0
   \<and> font (cell_styles (date_cell False)) = js ''NotoSansArabic''
   \<and> font (didParseCell builtin_fonts 2 (date_cell False)) = js ''NotoSansArabic''
   \<and> font (didParseCell builtin_fonts 2 (date_cell False)) \<noteq> js ''helvetica''"
  by (simp add: didParseCell_def date_cell_def builtin_fonts_def body_cell_styles_def
        columnStyles_font_def containsUrdu_def is_urdu_def js_def Let_def)

end
